theory Spec2Isabelle
  imports Main "HOL-Library.Char_ord" "HOL-Library.List_Lexorder"
begin

section \<open>Python values, exceptions and built-ins used by main.py\<close>

text \<open>
  The attributes of a \<open>Character\<close> are untyped in the source.  The values the program
  itself puts there are \<open>str\<close> (from \<open>input()\<close>) and \<open>int\<close> (from \<open>int(...)\<close> and
  \<open>len(...) + 1\<close>); these are the two kinds of value of the model.  A \<open>str\<close> is a list
  of characters read as the code points 0..255; an \<open>int\<close> is unbounded.
\<close>

datatype pyval = PInt int | PStr string

datatype error = TypeError | ValueError | EOFError

text \<open>\<open>str.isspace\<close> on the code points below 256.\<close>

definition py_isspace :: "char \<Rightarrow> bool" where
  "py_isspace c = ((of_char c :: nat) \<in> set [9, 10, 11, 12, 13, 28, 29, 30, 31, 32, 133, 160])"

definition py_strip :: "string \<Rightarrow> string" where
  "py_strip s = rev (dropWhile py_isspace (rev (dropWhile py_isspace s)))"

text \<open>\<open>s.split()\<close>: the maximal runs of non-whitespace characters, in order.\<close>

fun split_ws :: "string \<Rightarrow> string \<Rightarrow> string list" where
  "split_ws cur [] = (if cur = [] then [] else [cur])"
| "split_ws cur (c # cs) =
     (if py_isspace c then (if cur = [] then split_ws [] cs else cur # split_ws [] cs)
      else split_ws (cur @ [c]) cs)"

definition py_split :: "string \<Rightarrow> string list" where
  "py_split s = split_ws [] s"

text \<open>
  \<open>int(s)\<close> on a \<open>str\<close>: surrounding whitespace is stripped, one sign is allowed, then
  at least one decimal digit, with single underscores allowed between digits.
  \<open>None\<close> stands for the \<open>ValueError\<close> that \<open>int\<close> raises.  (The interpreter's
  limit on the number of digits of one literal is not modelled.)
\<close>

definition is_digit :: "char \<Rightarrow> bool" where
  "is_digit c = (CHR ''0'' \<le> c \<and> c \<le> CHR ''9'')"

definition digit_val :: "char \<Rightarrow> int" where
  "digit_val c = int (of_char c) - 48"

fun parse_digits :: "int \<Rightarrow> string \<Rightarrow> int option" where
  "parse_digits acc [] = Some acc"
| "parse_digits acc [c] = (if is_digit c then Some (acc * 10 + digit_val c) else None)"
| "parse_digits acc (c # d # ds) =
     (if is_digit c then parse_digits (acc * 10 + digit_val c) (d # ds)
      else if c = CHR ''_'' \<and> is_digit d then parse_digits (acc * 10 + digit_val d) ds
      else None)"

definition py_int_unsigned :: "string \<Rightarrow> int option" where
  "py_int_unsigned s =
     (case s of [] \<Rightarrow> None
      | c # cs \<Rightarrow> if is_digit c then parse_digits (digit_val c) cs else None)"

definition py_int :: "string \<Rightarrow> int option" where
  "py_int s =
     (case py_strip s of
        [] \<Rightarrow> None
      | c # cs \<Rightarrow>
          if c = CHR ''+'' then py_int_unsigned cs
          else if c = CHR ''-'' then map_option uminus (py_int_unsigned cs)
          else py_int_unsigned (c # cs))"

text \<open>\<open>xs[:n]\<close>: a negative \<open>n\<close> counts from the end; nothing is raised out of range.\<close>

definition py_slice_to :: "'a list \<Rightarrow> int \<Rightarrow> 'a list" where
  "py_slice_to xs n =
     (if 0 \<le> n then take (nat n) xs else take (nat (int (length xs) + n)) xs)"

text \<open>\<open>a > b\<close>: defined between two ints and between two strs, a \<open>TypeError\<close> otherwise.\<close>

fun py_gt :: "pyval \<Rightarrow> pyval \<Rightarrow> error + bool" where
  "py_gt (PInt a) (PInt b) = Inr (b < a)"
| "py_gt (PStr a) (PStr b) = Inr (b < a)"
| "py_gt (PInt a) (PStr b) = Inl TypeError"
| "py_gt (PStr a) (PInt b) = Inl TypeError"

text \<open>
  \<open>max(xs, default=d)\<close>: the default on an empty list; otherwise the first item is the
  candidate and a later item replaces it when it compares greater.
\<close>

fun max_loop :: "pyval \<Rightarrow> pyval list \<Rightarrow> error + pyval" where
  "max_loop m [] = Inr m"
| "max_loop m (x # xs) =
     (case py_gt x m of Inl e \<Rightarrow> Inl e | Inr b \<Rightarrow> max_loop (if b then x else m) xs)"

definition py_max_default :: "pyval list \<Rightarrow> pyval \<Rightarrow> error + pyval" where
  "py_max_default xs d = (case xs of [] \<Rightarrow> Inr d | x # r \<Rightarrow> max_loop x r)"

text \<open>\<open>v + n\<close> for an int \<open>n\<close>: a str on the left raises \<open>TypeError\<close>.\<close>

fun py_add_int :: "pyval \<Rightarrow> int \<Rightarrow> error + pyval" where
  "py_add_int (PInt a) n = Inr (PInt (a + n))"
| "py_add_int (PStr s) n = Inl TypeError"


section \<open>The data model: class Character\<close>

text \<open>
  The attributes \<open>id\<close>, \<open>name\<close>, \<open>type\<close>, \<open>health\<close>, \<open>attack\<close>, \<open>image_url\<close>; the
  suffix keeps them apart from the constants of HOL.
\<close>

record Character =
  id_c :: pyval
  name_c :: pyval
  type_c :: pyval
  health_c :: pyval
  attack_c :: pyval
  image_url_c :: pyval

type_synonym pydict = "(string \<times> pyval) list"

text \<open>\<open>Character.__init__(self, id, name, char_type, health, attack, image_url)\<close>.\<close>

definition Character_init ::
  "pyval \<Rightarrow> pyval \<Rightarrow> pyval \<Rightarrow> pyval \<Rightarrow> pyval \<Rightarrow> pyval \<Rightarrow> Character" where
  "Character_init i n char_type h a u =
     \<lparr>id_c = i, name_c = n, type_c = char_type, health_c = h, attack_c = a, image_url_c = u\<rparr>"

definition to_dict :: "Character \<Rightarrow> pydict" where
  "to_dict c =
     [(''id'', id_c c), (''name'', name_c c), (''type'', type_c c),
      (''health'', health_c c), (''attack'', attack_c c), (''image_url'', image_url_c c)]"

text \<open>
  \<open>Character(**char)\<close>: the keys of the dict are bound to the parameters of
  \<open>__init__\<close> by name.  A key that is no parameter name raises \<open>TypeError\<close>, and so does a
  parameter without default that no key supplies; \<open>image_url\<close> defaults to the empty
  str.
\<close>

definition Character_params :: "string list" where
  "Character_params = [''id'', ''name'', ''char_type'', ''health'', ''attack'', ''image_url'']"

definition Character_kwargs :: "pydict \<Rightarrow> error + Character" where
  "Character_kwargs kw =
     (if \<not> list_all (\<lambda>k. k \<in> set Character_params) (map fst kw) then Inl TypeError
      else
        (case (map_of kw ''id'', map_of kw ''name'', map_of kw ''char_type'',
               map_of kw ''health'', map_of kw ''attack'') of
           (Some i, Some n, Some t, Some h, Some a) \<Rightarrow>
             Inr (Character_init i n t h a
                    (case map_of kw ''image_url'' of None \<Rightarrow> PStr [] | Some u \<Rightarrow> u))
         | _ \<Rightarrow> Inl TypeError))"

section \<open>The world: the store, its file, the console\<close>

text \<open>
  What the renderer and \<open>print\<close> write, one constructor per message of the source (the
  texts themselves are Ukrainian string literals; an f-string keeps the values it
  formats).  The prompts of \<open>input\<close> are not recorded.
\<close>

datatype msg =
    ListEmpty
  | ListHeader
  | CharLine Character
  | AddHeader
  | AddCreated string
  | ShowUsage
  | ShowName pyval
  | ShowId pyval
  | ShowType pyval
  | ShowHealth pyval
  | ShowAttack pyval
  | ShowImage pyval
  | ShowNotFound
  | HelpText
  | ImportHeader
  | ImportLoading
  | ImportFailed
  | ImportFound nat
  | ImportCount int
  | ImportProgress nat int string
  | ImportDone nat
  | UnknownCommand "string option"
  | ErrorLine error
  | Goodbye

text \<open>
  \<open>characters\<close> is \<open>DataStorage.characters\<close>; \<open>json_file\<close> is the content of
  \<open>characters.json\<close> as the JSON document it holds, an array of objects (\<open>None\<close>: the
  file does not exist); \<open>stdin\<close> holds the lines still to be read; \<open>out\<close> the messages
  written so far.  Writing the file is taken to succeed.
\<close>

record world =
  characters :: "Character list"
  json_file :: "pydict list option"
  stdin :: "string list"
  out :: "msg list"

type_synonym 'a res = "(error + 'a) \<times> world"

definition bind_res :: "'a res \<Rightarrow> ('a \<Rightarrow> world \<Rightarrow> 'b res) \<Rightarrow> 'b res" where
  "bind_res r f = (case r of (Inl e, w) \<Rightarrow> (Inl e, w) | (Inr x, w) \<Rightarrow> f x w)"

definition render :: "msg \<Rightarrow> world \<Rightarrow> world" where
  "render m w = w\<lparr>out := out w @ [m]\<rparr>"

text \<open>\<open>input(...)\<close>: the next line, or \<open>EOFError\<close> when there is none.\<close>

definition input :: "world \<Rightarrow> string res" where
  "input w =
     (case stdin w of [] \<Rightarrow> (Inl EOFError, w) | l # ls \<Rightarrow> (Inr l, w\<lparr>stdin := ls\<rparr>))"

definition int_of_line :: "string \<Rightarrow> world \<Rightarrow> int res" where
  "int_of_line s w = (case py_int s of None \<Rightarrow> (Inl ValueError, w) | Some n \<Rightarrow> (Inr n, w))"

section \<open>class DataStorage\<close>

fun load_records :: "pydict list \<Rightarrow> error + Character list" where
  "load_records [] = Inr []"
| "load_records (d # ds) =
     (case Character_kwargs d of
        Inl e \<Rightarrow> Inl e
      | Inr c \<Rightarrow> (case load_records ds of Inl e \<Rightarrow> Inl e | Inr cs \<Rightarrow> Inr (c # cs)))"

definition load :: "world \<Rightarrow> error + Character list" where
  "load w = (case json_file w of None \<Rightarrow> Inr [] | Some data \<Rightarrow> load_records data)"

definition save :: "world \<Rightarrow> world" where
  "save w = w\<lparr>json_file := Some (map to_dict (characters w))\<rparr>"

definition add_character :: "world \<Rightarrow> Character \<Rightarrow> world" where
  "add_character w character = save (w\<lparr>characters := characters w @ [character]\<rparr>)"

definition get_all :: "world \<Rightarrow> Character list" where
  "get_all w = characters w"

fun find_by_id :: "Character list \<Rightarrow> pyval \<Rightarrow> Character option" where
  "find_by_id [] char_id = None"
| "find_by_id (c # cs) char_id = (if id_c c = char_id then Some c else find_by_id cs char_id)"

definition get_by_id :: "world \<Rightarrow> pyval \<Rightarrow> Character option" where
  "get_by_id w char_id = find_by_id (characters w) char_id"

section \<open>class ArgParser\<close>

definition parse_args :: "string \<Rightarrow> string option \<times> string list" where
  "parse_args input_string =
     (case py_split (py_strip input_string) of
        [] \<Rightarrow> (None, [])
      | p # ps \<Rightarrow> (Some p, ps))"

section \<open>The commands (class ICommandStrategy and its subclasses)\<close>

text \<open>
  A command is the pair of its two methods.  \<open>exec_command\<close> gets the command word, the
  argument tokens and the world (the store and the renderer live there).
\<close>

record ICommandStrategy =
  get_command_selectors :: "string list"
  exec_command :: "string \<Rightarrow> string list \<Rightarrow> world \<Rightarrow> unit res"

subsection \<open>ListCommand\<close>

definition ListCommand_exec :: "string \<Rightarrow> string list \<Rightarrow> world \<Rightarrow> unit res" where
  "ListCommand_exec command args w =
     (let chars = get_all w in
      if chars = [] then (Inr (), render ListEmpty w)
      else (Inr (), foldl (\<lambda>w' char. render (CharLine char) w') (render ListHeader w) chars))"

definition ListCommand :: ICommandStrategy where
  "ListCommand = \<lparr>get_command_selectors = [''list'', ''ls''], exec_command = ListCommand_exec\<rparr>"

subsection \<open>AddCommand\<close>

definition AddCommand_exec :: "string \<Rightarrow> string list \<Rightarrow> world \<Rightarrow> unit res" where
  "AddCommand_exec command args w =
     bind_res (input (render AddHeader w)) (\<lambda>name w.
     bind_res (input w) (\<lambda>char_type w.
     bind_res (input w) (\<lambda>health_line w.
     bind_res (int_of_line health_line w) (\<lambda>health w.
     bind_res (input w) (\<lambda>attack_line w.
     bind_res (int_of_line attack_line w) (\<lambda>attack w.
     bind_res (input w) (\<lambda>image_url w.
       (let char_id = PInt (int (length (get_all w)) + 1);
            new_char = Character_init char_id (PStr name) (PStr char_type)
                         (PInt health) (PInt attack) (PStr image_url)
        in (Inr (), render (AddCreated name) (add_character w new_char))))))))))"

definition AddCommand :: ICommandStrategy where
  "AddCommand = \<lparr>get_command_selectors = [''add'', ''create''], exec_command = AddCommand_exec\<rparr>"

subsection \<open>ShowCommand\<close>




subsection \<open>HelpCommand\<close>

definition HelpCommand_exec :: "string \<Rightarrow> string list \<Rightarrow> world \<Rightarrow> unit res" where
  "HelpCommand_exec command args w = (Inr (), render HelpText w)"


subsection \<open>ImportCommand\<close>

text \<open>
  The module \<open>api_client\<close> is not part of the sources at hand; its two classes enter as
  parameters: what \<open>get_all_character_names()\<close> returns, what
  \<open>get_character_details(name)\<close> returns (\<open>None\<close> for any falsy result), and the
  conversion \<open>parse_to_character(details, id, Character)\<close>.
\<close>

record 'd api =
  get_all_character_names :: "string list"
  get_character_details :: "string \<Rightarrow> 'd option"
  parse_to_character :: "'d \<Rightarrow> pyval \<Rightarrow> Character"

text \<open>
  The \<open>try\<close> block that chooses the count: the bare \<open>except\<close> catches whatever
  \<open>input\<close> or \<open>int\<close> raises and sets 5; \<open>min\<close> is applied inside the \<open>try\<close> only.
\<close>

definition import_count :: "string list \<Rightarrow> world \<Rightarrow> int \<times> world" where
  "import_count character_names w =
     (case input w of
        (Inl e, w') \<Rightarrow> (5, w')
      | (Inr line, w') \<Rightarrow>
          (case py_int line of
             None \<Rightarrow> (5, w')
           | Some count \<Rightarrow> (min count (int (length character_names)), w')))"

text \<open>
  The \<open>for i, name in enumerate(character_names[:count])\<close> loop, from index \<open>i\<close> on,
  with the names still to process; it returns \<open>imported\<close>.
\<close>

fun import_loop ::
  "'d api \<Rightarrow> int \<Rightarrow> pyval \<Rightarrow> nat \<Rightarrow> string list \<Rightarrow> nat \<Rightarrow> world \<Rightarrow> nat res" where
  "import_loop a count current_max_id i [] imported w = (Inr imported, w)"
| "import_loop a count current_max_id i (name # rest) imported w =
     (let w1 = render (ImportProgress (i + 1) count name) w in
      case get_character_details a name of
        None \<Rightarrow> import_loop a count current_max_id (Suc i) rest imported w1
      | Some details \<Rightarrow>
          (case py_add_int current_max_id (int i + 1) of
             Inl e \<Rightarrow> (Inl e, w1)
           | Inr new_id \<Rightarrow>
               import_loop a count current_max_id (Suc i) rest (Suc imported)
                 (add_character w1 (parse_to_character a details new_id))))"

definition ImportCommand_exec :: "'d api \<Rightarrow> string \<Rightarrow> string list \<Rightarrow> world \<Rightarrow> unit res" where
  "ImportCommand_exec a command args w =
     (let w1 = render ImportLoading (render ImportHeader w);
          character_names = get_all_character_names a
      in if character_names = [] then (Inr (), render ImportFailed w1)
         else
           (let w2 = render (ImportFound (length character_names)) w1;
                (count, w3) = import_count character_names w2;
                w4 = render (ImportCount count) w3
            in case py_max_default (map id_c (get_all w4)) (PInt 0) of
                 Inl e \<Rightarrow> (Inl e, w4)
               | Inr current_max_id \<Rightarrow>
                   bind_res
                     (import_loop a count current_max_id 0
                        (py_slice_to character_names count) 0 w4)
                     (\<lambda>imported w5. (Inr (), render (ImportDone imported) w5))))"


section \<open>class CLI\<close>


text \<open>
  The \<open>for cmd_strategy in self.commands\<close> loop of \<open>CLI.exec_command\<close>.  The command word
  is \<open>None\<close> for a line without tokens, and \<open>None\<close> is in no selector list.
\<close>

fun dispatch ::
  "ICommandStrategy list \<Rightarrow> string option \<Rightarrow> string list \<Rightarrow> world \<Rightarrow> bool res" where
  "dispatch [] command args w = (Inr True, render (UnknownCommand command) w)"
| "dispatch (cmd_strategy # rest) command args w =
     (case command of
        None \<Rightarrow> dispatch rest command args w
      | Some word \<Rightarrow>
          if word \<in> set (get_command_selectors cmd_strategy)
          then bind_res (exec_command cmd_strategy word args w) (\<lambda>_ w'. (Inr True, w'))
          else dispatch rest command args w)"

definition CLI_exec_command :: "ICommandStrategy list \<Rightarrow> string \<Rightarrow> world \<Rightarrow> bool res" where
  "CLI_exec_command commands input_string w =
     (let (command, args) = parse_args input_string in
      if command = Some ''exit'' \<or> command = Some ''quit'' then (Inr False, w)
      else dispatch commands command args w)"




section \<open>Runs and inputs used in the statements\<close>

text \<open>
  The five lines one Add command reads: name, type, health, attack, image URL.  The lines
  are valid when \<open>int\<close> accepts the health and the attack line.
\<close>

type_synonym add_input = "string \<times> string \<times> string \<times> string \<times> string"

definition add_lines :: "add_input \<Rightarrow> string list" where
  "add_lines x = (case x of (name, char_type, health, attack, image_url) \<Rightarrow>
     [name, char_type, health, attack, image_url])"

definition valid_add :: "add_input \<Rightarrow> bool" where
  "valid_add x = (case x of (name, char_type, health, attack, image_url) \<Rightarrow>
     py_int health \<noteq> None \<and> py_int attack \<noteq> None)"

text \<open>The record the Add command builds from these lines when it assigns the id \<open>k\<close>.\<close>

definition added_character :: "int \<Rightarrow> add_input \<Rightarrow> Character" where
  "added_character k x = (case x of (name, char_type, health, attack, image_url) \<Rightarrow>
     Character_init (PInt k) (PStr name) (PStr char_type)
       (PInt (the (py_int health))) (PInt (the (py_int attack))) (PStr image_url))"

text \<open>\<open>n\<close> Add commands in a row; the run stops at the first one that raises.\<close>

fun add_seq :: "nat \<Rightarrow> world \<Rightarrow> unit res" where
  "add_seq 0 w = (Inr (), w)"
| "add_seq (Suc n) w = bind_res (AddCommand_exec ''add'' [] w) (\<lambda>_ w'. add_seq n w')"

subsection \<open>Concrete worlds\<close>

definition empty_world :: world where
  "empty_world = \<lparr>characters = [], json_file = None, stdin = [], out = []\<rparr>"

definition amber :: "pyval \<Rightarrow> Character" where
  "amber i = Character_init i (PStr ''Amber'') (PStr ''Pyro'') (PInt 100) (PInt 10) (PStr [])"

definition lisa_input :: add_input where
  "lisa_input = (''Lisa'', ''mage'', ''90'', '' 12'', [])"

definition noelle_input :: add_input where
  "noelle_input = (''Noelle'', [], ''-5'', ''1_000'', ''http://x/n.png'')"

definition collide_world :: world where
  "collide_world = empty_world\<lparr>characters := [amber (PInt 2)], stdin := add_lines lisa_input\<rparr>"

definition two_adds_world :: world where
  "two_adds_world =
     empty_world\<lparr>stdin := add_lines lisa_input @ add_lines noelle_input @ [''list'']\<rparr>"

definition three_adds_world :: world where
  "three_adds_world =
     empty_world\<lparr>stdin := add_lines lisa_input @ add_lines noelle_input @
                               add_lines lisa_input @ [''ls'']\<rparr>"

definition seven_world :: world where
  "seven_world = empty_world\<lparr>characters := [amber (PInt 7)], stdin := add_lines lisa_input\<rparr>"

subsection \<open>Import runs\<close>

text \<open>
  The batch the Import command processes, \<open>character_names[:count]\<close> with the count it
  reads from the world, and the positions in a batch whose fetch returns details.
\<close>

definition import_batch :: "'d api \<Rightarrow> world \<Rightarrow> string list" where
  "import_batch a w =
     py_slice_to (get_all_character_names a) (fst (import_count (get_all_character_names a) w))"

definition fetched_positions :: "'d api \<Rightarrow> string list \<Rightarrow> nat list" where
  "fetched_positions a batch =
     filter (\<lambda>i. get_character_details a (batch ! i) \<noteq> None) [0..<length batch]"

text \<open>
  The count the command settles on, the names of a batch whose fetch returns details,
  and the progress lines of a batch (\<open>[j+1/count]\<close> and the name).
\<close>

definition chosen_count :: "'d api \<Rightarrow> world \<Rightarrow> int" where
  "chosen_count a w = fst (import_count (get_all_character_names a) w)"

definition fetched :: "'d api \<Rightarrow> string list \<Rightarrow> string list" where
  "fetched a batch = filter (\<lambda>name. get_character_details a name \<noteq> None) batch"

definition progress_lines :: "int \<Rightarrow> string list \<Rightarrow> msg list" where
  "progress_lines count batch =
     map (\<lambda>j. ImportProgress (j + 1) count (batch ! j)) [0..<length batch]"

text \<open>
  Three collaborators over the same conversion: one whose first name cannot be fetched,
  one that fetches every name, one that lists no name.
\<close>

definition gap_api :: "unit api" where
  "gap_api = \<lparr>get_all_character_names = [''albedo'', ''amber''],
     get_character_details = (\<lambda>name. if name = ''amber'' then Some () else None),
     parse_to_character = (\<lambda>details i. amber i)\<rparr>"

definition full_api :: "unit api" where
  "full_api = \<lparr>get_all_character_names = [''albedo'', ''amber''],
     get_character_details = (\<lambda>name. Some ()),
     parse_to_character = (\<lambda>details i. amber i)\<rparr>"

definition no_names_api :: "unit api" where
  "no_names_api = \<lparr>get_all_character_names = [],
     get_character_details = (\<lambda>name. None),
     parse_to_character = (\<lambda>details i. amber i)\<rparr>"

text \<open>Worlds that differ in the store and in the line typed at the count prompt.\<close>

definition gap_world :: world where
  "gap_world = empty_world\<lparr>stdin := [''2'']\<rparr>"

definition stored_world :: world where
  "stored_world = empty_world\<lparr>characters := [amber (PInt 7), amber (PInt 3)], stdin := [''2'', ''list'']\<rparr>"

definition many_world :: world where
  "many_world = empty_world\<lparr>stdin := [''many'']\<rparr>"

definition ten_world :: world where
  "ten_world = empty_world\<lparr>stdin := [''10'']\<rparr>"

definition minus_world :: world where
  "minus_world = empty_world\<lparr>stdin := [''-1'']\<rparr>"

subsection \<open>Registries\<close>

text \<open>
  Two commands that are not in the registry of \<open>CLI.__init__\<close>: one answers to
  \<open>quit\<close>, one shares the selector \<open>ls\<close> with \<open>ListCommand\<close>.
\<close>

definition quit_command :: ICommandStrategy where
  "quit_command =
     \<lparr>get_command_selectors = [''quit'', ''bye''], exec_command = HelpCommand_exec\<rparr>"

definition overlap_command :: ICommandStrategy where
  "overlap_command =
     \<lparr>get_command_selectors = [''dir'', ''ls''], exec_command = HelpCommand_exec\<rparr>"

section \<open>Basic facts\<close>


lemma bind_res_Inr [simp]: "bind_res (Inr x, w) f = f x w"
  by (simp add: bind_res_def)

lemma render_fields [simp]:
  "characters (render m w) = characters w"
  "json_file (render m w) = json_file w"
  "stdin (render m w) = stdin w"
  "out (render m w) = out w @ [m]"
  by (simp_all add: render_def)

lemma add_character_fields [simp]:
  "characters (add_character w c) = characters w @ [c]"
  "json_file (add_character w c) = Some (map to_dict (characters w @ [c]))"
  "stdin (add_character w c) = stdin w"
  "out (add_character w c) = out w"
  by (simp_all add: add_character_def save_def)

lemma input_Cons: "stdin w = l # ls \<Longrightarrow> input w = (Inr l, w\<lparr>stdin := ls\<rparr>)"
  by (simp add: input_def)

lemma valid_lisa: "valid_add lisa_input"
  by code_simp

lemma valid_noelle: "valid_add noelle_input"
  by code_simp

section \<open>Persistence: save, then load\<close>

text \<open>
  \<open>to_dict\<close> writes the key \<open>type\<close>, and \<open>__init__\<close> has no parameter of that name
  (the parameter is \<open>char_type\<close>): the call \<open>Character(**char)\<close> raises on every object
  that \<open>save\<close> wrote.
\<close>

lemma Character_kwargs_to_dict: "Character_kwargs (to_dict c) = Inl TypeError"
  by (simp add: Character_kwargs_def to_dict_def Character_params_def)

lemma load_save_nonempty: "characters w \<noteq> [] \<Longrightarrow> load (save w) = Inl TypeError"
  by (cases "characters w") (simp_all add: load_def save_def Character_kwargs_to_dict)

lemma load_save_empty: "characters w = [] \<Longrightarrow> load (save w) = Inr []"
  by (simp add: load_def save_def)

text \<open>
  Claim C1 (round trip): \<open>save()\<close> followed by a fresh \<open>load()\<close> of the same file gives
  back an equal sequence of records, and \<open>load()\<close> succeeds on any file \<open>save()\<close>
  wrote.  The code does not do this: with one record in the store, \<open>load\<close> after
  \<open>save\<close> raises \<open>TypeError\<close> instead of returning the record.
\<close>

theorem save_then_load_raises:
  "load (save (empty_world\<lparr>characters := [amber (PInt 1)]\<rparr>)) = Inl TypeError"
  by (simp add: load_save_nonempty empty_world_def)

section \<open>The Add command\<close>

lemma AddCommand_exec_valid:
  assumes "stdin w = name # char_type # hl # al # url # rest"
    and "py_int hl = Some h" and "py_int al = Some a"
  shows "AddCommand_exec command args w =
    (Inr (), render (AddCreated name)
       (add_character (w\<lparr>out := out w @ [AddHeader], stdin := rest\<rparr>)
         (Character_init (PInt (int (length (characters w)) + 1)) (PStr name) (PStr char_type)
            (PInt h) (PInt a) (PStr url))))"
  using assms
  by (simp add: AddCommand_exec_def input_def int_of_line_def render_def get_all_def)

lemma AddCommand_exec_input:
  assumes "valid_add x" and "stdin w = add_lines x @ rest"
  shows "AddCommand_exec command args w =
    (Inr (), render (AddCreated (fst x))
       (add_character (w\<lparr>out := out w @ [AddHeader], stdin := rest\<rparr>)
         (added_character (int (length (characters w)) + 1) x)))"
proof -
  obtain n t h a u where x: "x = (n, t, h, a, u)" by (cases x)
  from assms(1) x obtain hv av where p: "py_int h = Some hv" "py_int a = Some av"
    by (auto simp: valid_add_def)
  from assms(2) x have s: "stdin w = n # t # h # a # u # rest"
    by (simp add: add_lines_def)
  show ?thesis
    using AddCommand_exec_valid [OF s p] x p by (simp add: added_character_def)
qed

lemma add_seq_valid:
  "list_all valid_add xs \<Longrightarrow> stdin w = concat (map add_lines xs) @ rest \<Longrightarrow>
   fst (add_seq (length xs) w) = Inr () \<and>
   characters (snd (add_seq (length xs) w)) =
     characters w @ map (\<lambda>k. added_character (int (length (characters w)) + int k + 1) (xs ! k))
                      [0..<length xs] \<and>
   stdin (snd (add_seq (length xs) w)) = rest"
proof (induction xs arbitrary: w)
  case Nil
  then show ?case by simp
next
  case (Cons x xs)
  let ?w1 = "render (AddCreated (fst x))
       (add_character (w\<lparr>out := out w @ [AddHeader], stdin := concat (map add_lines xs) @ rest\<rparr>)
         (added_character (int (length (characters w)) + 1) x))"
  from Cons.prems have v: "valid_add x" and vs: "list_all valid_add xs"
    and s: "stdin w = add_lines x @ (concat (map add_lines xs) @ rest)" by simp_all
  have step: "AddCommand_exec ''add'' [] w = (Inr (), ?w1)"
    by (rule AddCommand_exec_input [OF v s])
  have s1: "stdin ?w1 = concat (map add_lines xs) @ rest" by simp
  have c1: "characters ?w1 = characters w @ [added_character (int (length (characters w)) + 1) x]"
    by simp
  have unf: "add_seq (length (x # xs)) w = add_seq (length xs) ?w1"
    by (simp add: step)
  from Cons.IH [OF vs s1] show ?case
    unfolding unf c1 by (simp add: map_upt_Suc add.commute add.left_commute del: upt_Suc)
qed

lemma id_c_added_character [simp]: "id_c (added_character k x) = PInt k"
  by (cases x) (simp add: added_character_def Character_init_def)

subsection \<open>Lookup by id\<close>

lemma find_by_id_append:
  "find_by_id (xs @ ys) i = (case find_by_id xs i of Some c \<Rightarrow> Some c | None \<Rightarrow> find_by_id ys i)"
  by (induction xs) simp_all

lemma find_by_id_None_iff: "find_by_id xs i = None \<longleftrightarrow> i \<notin> id_c ` set xs"
  by (induction xs) auto

lemma find_by_id_map_upt:
  assumes ids: "\<And>k. id_c (f k) = PInt (g k)" and inj: "inj g" and j: "j < n"
  shows "find_by_id (map f [0..<n]) (PInt (g j)) = Some (f j)"
  using j
proof (induction n)
  case 0
  then show ?case by simp
next
  case (Suc n)
  show ?case
  proof (cases "j < n")
    case True
    with Suc.IH show ?thesis by (simp add: find_by_id_append)
  next
    case False
    with Suc.prems have jn: "j = n" by simp
    have "PInt (g n) \<notin> id_c ` set (map f [0..<n])"
    proof
      assume "PInt (g n) \<in> id_c ` set (map f [0..<n])"
      then obtain k where "k < n" and "id_c (f k) = PInt (g n)" by auto
      with ids have "g k = g n" by simp
      with inj have "k = n" by (simp add: inj_def)
      with \<open>k < n\<close> show False by simp
    qed
    then have "find_by_id (map f [0..<n]) (PInt (g n)) = None"
      by (simp add: find_by_id_None_iff)
    then show ?thesis using jn ids by (simp add: find_by_id_append)
  qed
qed

text \<open>
  Claim C3, as stated: after any sequence of valid adds from any initial store, every
  added record is retrievable by its assigned id.  It fails on a store that already
  holds the id the add assigns: the store holds one record with id 2 (an import whose
  first fetch failed leaves such a store), the add assigns \<open>len + 1 = 2\<close> again, and
  \<open>get_by_id 2\<close> returns the older record.
\<close>

theorem add_lookup_counterexample:
  "valid_add lisa_input \<and>
   fst (add_seq 1 collide_world) = Inr () \<and>
   get_all (snd (add_seq 1 collide_world)) = [amber (PInt 2), added_character 2 lisa_input] \<and>
   get_by_id (snd (add_seq 1 collide_world)) (PInt 2) = Some (amber (PInt 2)) \<and>
   amber (PInt 2) \<noteq> added_character 2 lisa_input"
  by code_simp

text \<open>
  Claim C3, amended: for every sequence of adds with valid inputs, from any initial
  store, every add succeeds and \<open>get_all\<close> has the initial length plus the number of
  adds; and when no record of the initial store carries one of the ids
  \<open>len + 1, ..., len + n\<close> that the adds assign (\<open>len\<close> the initial length), the
  \<open>k\<close>-th added record is what \<open>get_by_id\<close> returns for its id.
\<close>

theorem adds_length_and_lookup:
  assumes "list_all valid_add xs" and "stdin w = concat (map add_lines xs) @ rest"
  shows "fst (add_seq (length xs) w) = Inr () \<and>
    length (get_all (snd (add_seq (length xs) w))) = length (get_all w) + length xs \<and>
    ((\<forall>c \<in> set (get_all w). \<forall>k < length xs.
         id_c c \<noteq> PInt (int (length (get_all w)) + int k + 1)) \<longrightarrow>
     (\<forall>k < length xs.
         get_by_id (snd (add_seq (length xs) w)) (PInt (int (length (get_all w)) + int k + 1)) =
           Some (added_character (int (length (get_all w)) + int k + 1) (xs ! k)) \<and>
         get_all (snd (add_seq (length xs) w)) ! (length (get_all w) + k) =
           added_character (int (length (get_all w)) + int k + 1) (xs ! k)))"
proof -
  let ?L = "int (length (characters w))"
  let ?f = "\<lambda>k. added_character (?L + int k + 1) (xs ! k)"
  let ?w' = "snd (add_seq (length xs) w)"
  from add_seq_valid [OF assms]
  have ok: "fst (add_seq (length xs) w) = Inr ()"
    and cs: "characters ?w' = characters w @ map ?f [0..<length xs]"
    by simp_all
  have len: "length (characters ?w') = length (characters w) + length xs"
    by (simp add: cs)
  have look: "get_by_id ?w' (PInt (?L + int k + 1)) = Some (?f k) \<and>
      characters ?w' ! (length (characters w) + k) = ?f k"
    if free: "\<forall>c \<in> set (characters w). \<forall>k < length xs. id_c c \<noteq> PInt (?L + int k + 1)"
      and k: "k < length xs" for k
  proof -
    from free k have "PInt (?L + int k + 1) \<notin> id_c ` set (characters w)" by fastforce
    then have none: "find_by_id (characters w) (PInt (?L + int k + 1)) = None"
      by (simp add: find_by_id_None_iff)
    have "inj (\<lambda>k. ?L + int k + 1)" by (simp add: inj_def)
    then have "find_by_id (map ?f [0..<length xs]) (PInt (?L + int k + 1)) = Some (?f k)"
      using k by (intro find_by_id_map_upt [where g = "\<lambda>k. ?L + int k + 1"]) simp_all
    with none have "get_by_id ?w' (PInt (?L + int k + 1)) = Some (?f k)"
      by (simp add: get_by_id_def cs find_by_id_append)
    moreover have "characters ?w' ! (length (characters w) + k) = ?f k"
      using k by (simp add: cs nth_append)
    ultimately show ?thesis by simp
  qed
  show ?thesis
    unfolding get_all_def using ok len look by blast
qed

theorem adds_length_and_lookup_witness:
  "list_all valid_add [lisa_input, noelle_input] \<and>
   length (get_all (snd (add_seq 2 two_adds_world))) = 2 \<and>
   get_by_id (snd (add_seq 2 two_adds_world)) (PInt 1) = Some (added_character 1 lisa_input) \<and>
   get_by_id (snd (add_seq 2 two_adds_world)) (PInt 2) = Some (added_character 2 noelle_input)"
proof -
  have v: "list_all valid_add [lisa_input, noelle_input]"
    by (simp add: valid_lisa valid_noelle)
  have s: "stdin two_adds_world = concat (map add_lines [lisa_input, noelle_input]) @ [''list'']"
    by (simp add: two_adds_world_def empty_world_def)
  have e: "get_all two_adds_world = []"
    by (simp add: get_all_def two_adds_world_def empty_world_def)
  have n: "length [lisa_input, noelle_input] = 2" by simp
  note t = adds_length_and_lookup [OF v s, unfolded n e]
  from t have a: "\<forall>k<2. get_by_id (snd (add_seq 2 two_adds_world)) (PInt (int k + 1)) =
      Some (added_character (int k + 1) ([lisa_input, noelle_input] ! k))"
    by (simp del: add_seq.simps)
  have z: "(0::nat) < 2" "(1::nat) < 2" by simp_all
  from a z(1) have "get_by_id (snd (add_seq 2 two_adds_world)) (PInt (int 0 + 1)) =
      Some (added_character (int 0 + 1) ([lisa_input, noelle_input] ! 0))" by blast
  moreover from a z(2) have "get_by_id (snd (add_seq 2 two_adds_world)) (PInt (int 1 + 1)) =
      Some (added_character (int 1 + 1) ([lisa_input, noelle_input] ! 1))" by blast
  ultimately show ?thesis using v t by (simp del: add_seq.simps)
qed

text \<open>
  Claim C4: the Add command gives the new record the id \<open>count + 1\<close>, the count of the
  records in the store at the time of the call, whatever ids they carry; three adds on
  an empty store give the ids 1, 2, 3 whatever the field contents.
\<close>

theorem add_id_is_count_plus_one:
  "(valid_add x \<and> stdin w = add_lines x @ rest \<longrightarrow>
      fst (AddCommand_exec command args w) = Inr () \<and>
      get_all (snd (AddCommand_exec command args w)) =
        get_all w @ [added_character (int (length (get_all w)) + 1) x]) \<and>
   (list_all valid_add [x1, x2, x3] \<and> get_all v = [] \<and>
    stdin v = add_lines x1 @ add_lines x2 @ add_lines x3 @ rest' \<longrightarrow>
      fst (add_seq 3 v) = Inr () \<and>
      map id_c (get_all (snd (add_seq 3 v))) = [PInt 1, PInt 2, PInt 3])"
proof (intro conjI impI)
  assume a: "valid_add x \<and> stdin w = add_lines x @ rest"
  then have e: "AddCommand_exec command args w =
    (Inr (), render (AddCreated (fst x))
       (add_character (w\<lparr>out := out w @ [AddHeader], stdin := rest\<rparr>)
         (added_character (int (length (characters w)) + 1) x)))"
    by (intro AddCommand_exec_input) simp_all
  show "fst (AddCommand_exec command args w) = Inr ()" by (simp add: e)
  show "get_all (snd (AddCommand_exec command args w)) =
        get_all w @ [added_character (int (length (get_all w)) + 1) x]"
    by (simp add: e get_all_def)
next
  assume b: "list_all valid_add [x1, x2, x3] \<and> get_all v = [] \<and>
    stdin v = add_lines x1 @ add_lines x2 @ add_lines x3 @ rest'"
  then have v: "list_all valid_add [x1, x2, x3]"
    and s: "stdin v = concat (map add_lines [x1, x2, x3]) @ rest'"
    and e: "characters v = []"
    by (simp_all add: get_all_def)
  have n: "length [x1, x2, x3] = 3" by simp
  from add_seq_valid [OF v s, unfolded n] have ok: "fst (add_seq 3 v) = Inr ()"
    and cs: "characters (snd (add_seq 3 v)) =
       map (\<lambda>k. added_character (int k + 1) ([x1, x2, x3] ! k)) [0..<3]"
    by (simp_all add: e del: add_seq.simps)
  show "fst (add_seq 3 v) = Inr ()" by (rule ok)
  have "[0..<3] = [0, 1, 2]" by (simp add: upt_rec)
  then show "map id_c (get_all (snd (add_seq 3 v))) = [PInt 1, PInt 2, PInt 3]"
    by (simp add: get_all_def cs del: add_seq.simps)
qed

theorem add_id_is_count_plus_one_witness:
  "valid_add lisa_input \<and>
   get_all (snd (AddCommand_exec ''add'' [] seven_world)) =
     [amber (PInt 7), added_character 2 lisa_input] \<and>
   list_all valid_add [lisa_input, noelle_input, lisa_input] \<and>
   map id_c (get_all (snd (add_seq 3 three_adds_world))) = [PInt 1, PInt 2, PInt 3]"
proof -
  have v: "list_all valid_add [lisa_input, noelle_input, lisa_input]"
    by (simp add: valid_lisa valid_noelle)
  have e: "stdin seven_world = add_lines lisa_input @ []"
    "get_all seven_world = [amber (PInt 7)]"
    "stdin three_adds_world = add_lines lisa_input @ add_lines noelle_input @
       add_lines lisa_input @ [''ls'']"
    "get_all three_adds_world = []"
    by (simp_all add: seven_world_def three_adds_world_def empty_world_def get_all_def)
  show ?thesis
    using add_id_is_count_plus_one [of lisa_input seven_world "[]" "''add''" "[]" lisa_input
        noelle_input lisa_input three_adds_world "[''ls'']"] v valid_lisa e
    by (simp del: add_seq.simps)
qed

section \<open>The Import command\<close>

lemma fetched_positions_Nil [simp]: "fetched_positions a [] = []"
  by (simp add: fetched_positions_def)

lemma fetched_positions_Cons:
  "fetched_positions a (name # rest) =
     (if get_character_details a name = None then [] else [0]) @
     map Suc (fetched_positions a rest)"
proof -
  have "[0..<length (name # rest)] = 0 # map Suc [0..<length rest]"
    by (simp add: upt_conv_Cons map_Suc_upt del: upt_Suc)
  then show ?thesis
    by (simp add: fetched_positions_def filter_map comp_def del: upt_Suc)
qed

lemma import_loop_int:
  "fst (import_loop a count (PInt M) i batch imported w) =
     Inr (imported + length (fetched_positions a batch)) \<and>
   characters (snd (import_loop a count (PInt M) i batch imported w)) =
     characters w @
     map (\<lambda>j. parse_to_character a (the (get_character_details a (batch ! j)))
                (PInt (M + int (i + j) + 1)))
       (fetched_positions a batch) \<and>
   out (snd (import_loop a count (PInt M) i batch imported w)) =
     out w @ map (\<lambda>j. ImportProgress (i + j + 1) count (batch ! j)) [0..<length batch] \<and>
   stdin (snd (import_loop a count (PInt M) i batch imported w)) = stdin w"
proof (induction batch arbitrary: i imported w)
  case Nil
  then show ?case by simp
next
  case (Cons name rest)
  let ?w1 = "render (ImportProgress (i + 1) count name) w"
  have upt: "[0..<length (name # rest)] = 0 # map Suc [0..<length rest]"
    by (simp add: upt_conv_Cons map_Suc_upt del: upt_Suc)
  show ?case
  proof (cases "get_character_details a name")
    case None
    then have e: "import_loop a count (PInt M) i (name # rest) imported w =
        import_loop a count (PInt M) (Suc i) rest imported ?w1"
      by simp
    show ?thesis
      unfolding e upt
      using Cons.IH [of "Suc i" imported ?w1] None
      by (simp add: fetched_positions_Cons comp_def ac_simps)
  next
    case (Some d)
    let ?w2 = "add_character ?w1 (parse_to_character a d (PInt (M + (int i + 1))))"
    from Some have e: "import_loop a count (PInt M) i (name # rest) imported w =
        import_loop a count (PInt M) (Suc i) rest (Suc imported) ?w2"
      by simp
    show ?thesis
      unfolding e upt
      using Cons.IH [of "Suc i" "Suc imported" ?w2] Some
      by (simp add: fetched_positions_Cons comp_def ac_simps)
  qed
qed

lemma import_loop_bounds:
  "length (characters (snd (import_loop a count m i batch imported w))) \<le>
     length (characters w) + length batch"
proof (induction batch arbitrary: i imported w)
  case Nil
  then show ?case by simp
next
  case (Cons name rest)
  let ?w1 = "render (ImportProgress (i + 1) count name) w"
  show ?case
  proof (cases "get_character_details a name")
    case None
    with Cons.IH [of "Suc i" imported ?w1] show ?thesis by simp
  next
    case (Some d)
    show ?thesis
    proof (cases "py_add_int m (int i + 1)")
      case (Inl e)
      with Some show ?thesis by simp
    next
      case (Inr new_id)
      with Some Cons.IH [of "Suc i" "Suc imported"
          "add_character ?w1 (parse_to_character a d new_id)"]
      show ?thesis by simp
    qed
  qed
qed

lemma import_count_value:
  "fst (import_count names w) =
     (case stdin w of
        [] \<Rightarrow> 5
      | l # ls \<Rightarrow> (case py_int l of None \<Rightarrow> 5 | Some c \<Rightarrow> min c (int (length names))))"
  by (simp add: import_count_def input_def split: list.splits option.splits)

lemma import_count_world: "snd (import_count names w) = w\<lparr>stdin := tl (stdin w)\<rparr>"
  by (simp add: import_count_def input_def split: list.splits option.splits)

lemma import_count_render [simp]:
  "fst (import_count names (render m w)) = fst (import_count names w)"
  by (simp add: import_count_value)

lemma length_py_slice_to: "length (py_slice_to xs n) \<le> length xs"
  by (auto simp: py_slice_to_def)

lemma length_fetched_positions_filter:
  "length (fetched_positions a batch) =
     length (filter (\<lambda>name. get_character_details a name \<noteq> None) batch)"
  by (induction batch) (simp_all add: fetched_positions_Cons)

lemma fetched_positions_all:
  "list_all (\<lambda>name. get_character_details a name \<noteq> None) batch \<Longrightarrow>
   fetched_positions a batch = [0..<length batch]"
  unfolding fetched_positions_def
  by (rule filter_True) (simp add: list_all_length)

lemma ImportCommand_exec_empty:
  "get_all_character_names a = [] \<Longrightarrow>
   ImportCommand_exec a command args w =
     (Inr (), w\<lparr>out := out w @ [ImportHeader, ImportLoading, ImportFailed]\<rparr>)"
  by (simp add: ImportCommand_exec_def render_def)

lemma ImportCommand_exec_int:
  assumes names: "get_all_character_names a \<noteq> []"
    and mx: "py_max_default (map id_c (characters w)) (PInt 0) = Inr (PInt M)"
  shows "fst (ImportCommand_exec a command args w) = Inr () \<and>
    characters (snd (ImportCommand_exec a command args w)) =
      characters w @
      map (\<lambda>j. parse_to_character a (the (get_character_details a (import_batch a w ! j)))
                 (PInt (M + int j + 1)))
        (fetched_positions a (import_batch a w)) \<and>
    out (snd (ImportCommand_exec a command args w)) =
      out w @
      [ImportHeader, ImportLoading, ImportFound (length (get_all_character_names a)),
       ImportCount (fst (import_count (get_all_character_names a) w))] @
      map (\<lambda>j. ImportProgress (j + 1) (fst (import_count (get_all_character_names a) w))
                 (import_batch a w ! j))
        [0..<length (import_batch a w)] @
      [ImportDone (length (fetched_positions a (import_batch a w)))] \<and>
    stdin (snd (ImportCommand_exec a command args w)) = tl (stdin w)"
proof -
  let ?names = "get_all_character_names a"
  let ?w2 = "render (ImportFound (length ?names)) (render ImportLoading (render ImportHeader w))"
  let ?count = "fst (import_count ?names w)"
  let ?w4 = "render (ImportCount ?count) (?w2\<lparr>stdin := tl (stdin w)\<rparr>)"
  let ?batch = "import_batch a w"
  let ?r = "import_loop a ?count (PInt M) 0 ?batch 0 ?w4"
  have c4: "characters ?w4 = characters w" by simp
  have o4: "out ?w4 = out w @ [ImportHeader, ImportLoading, ImportFound (length ?names),
      ImportCount ?count]"
    by simp
  have s4: "stdin ?w4 = tl (stdin w)" by simp
  have e: "ImportCommand_exec a command args w =
      bind_res ?r (\<lambda>imported w5. (Inr (), render (ImportDone imported) w5))"
    using names mx
    by (simp add: ImportCommand_exec_def Let_def case_prod_beta get_all_def import_count_world
        import_batch_def)
  from import_loop_int [of a ?count M 0 ?batch 0 ?w4]
  have r: "?r = (Inr (0 + length (fetched_positions a ?batch)), snd ?r)"
    and rc: "characters (snd ?r) = characters ?w4 @
      map (\<lambda>j. parse_to_character a (the (get_character_details a (?batch ! j)))
                 (PInt (M + int (0 + j) + 1))) (fetched_positions a ?batch)"
    and ro: "out (snd ?r) = out ?w4 @
      map (\<lambda>j. ImportProgress (0 + j + 1) ?count (?batch ! j)) [0..<length ?batch]"
    and rs: "stdin (snd ?r) = stdin ?w4"
    by (simp_all add: prod_eq_iff)
  have e2: "ImportCommand_exec a command args w =
      (Inr (), render (ImportDone (length (fetched_positions a ?batch))) (snd ?r))"
    unfolding e by (subst r) simp
  show ?thesis
    unfolding e2 by (simp add: rc ro rs c4 o4 s4)
qed

lemma characters_bind_done:
  "characters (snd (bind_res r (\<lambda>imported w5. (Inr (), render (ImportDone imported) w5)))) =
     characters (snd r)"
  by (cases r) (simp add: bind_res_def split: sum.splits)

lemma ImportCommand_exec_bound:
  "length (characters (snd (ImportCommand_exec a command args w))) \<le>
     length (characters w) + length (get_all_character_names a)"
proof (cases "get_all_character_names a = []")
  case True
  then show ?thesis by (simp add: ImportCommand_exec_empty)
next
  case False
  let ?names = "get_all_character_names a"
  let ?w2 = "render (ImportFound (length ?names)) (render ImportLoading (render ImportHeader w))"
  let ?count = "fst (import_count ?names w)"
  let ?w4 = "render (ImportCount ?count) (?w2\<lparr>stdin := tl (stdin w)\<rparr>)"
  have c4: "characters ?w4 = characters w" by simp
  show ?thesis
  proof (cases "py_max_default (map id_c (characters w)) (PInt 0)")
    case (Inl e)
    with False have "ImportCommand_exec a command args w = (Inl e, ?w4)"
      by (simp add: ImportCommand_exec_def Let_def case_prod_beta get_all_def import_count_world)
    then show ?thesis by (simp add: c4)
  next
    case (Inr m)
    with False have "ImportCommand_exec a command args w =
      bind_res (import_loop a ?count m 0 (py_slice_to ?names ?count) 0 ?w4)
        (\<lambda>imported w5. (Inr (), render (ImportDone imported) w5))"
      by (simp add: ImportCommand_exec_def Let_def case_prod_beta get_all_def import_count_world)
    then have "length (characters (snd (ImportCommand_exec a command args w))) \<le>
        length (characters ?w4) + length (py_slice_to ?names ?count)"
      by (simp only: characters_bind_done import_loop_bounds)
    also have "\<dots> \<le> length (characters w) + length ?names"
      using length_py_slice_to [of ?names ?count] by (simp only: c4 add_le_cancel_left)
    finally show ?thesis .
  qed
qed

text \<open>
  Claim C2, as stated: with \<open>N\<close> names fetched, the new records get the ids
  \<open>M + 1, ..., M + N\<close>, and a name whose fetch fails consumes no id.  It fails: on the
  empty store (\<open>M = 0\<close>) the first of two names cannot be fetched, the second can, and
  the one record imported gets the id 2, not 1.
\<close>

theorem import_ids_gap_counterexample:
  "py_max_default (map id_c (get_all gap_world)) (PInt 0) = Inr (PInt 0) \<and>
   map (\<lambda>name. get_character_details gap_api name \<noteq> None) (import_batch gap_api gap_world)
     = [False, True] \<and>
   fst (ImportCommand_exec gap_api ''import'' [] gap_world) = Inr () \<and>
   map id_c (get_all (snd (ImportCommand_exec gap_api ''import'' [] gap_world))) = [PInt 2] \<and>
   last (out (snd (ImportCommand_exec gap_api ''import'' [] gap_world))) = ImportDone 1 \<and>
   map id_c (get_all (snd (ImportCommand_exec gap_api ''import'' [] gap_world)))
     \<noteq> map PInt [0 + 1..0 + 1]"
  by code_simp

text \<open>
  Claim C2, amended: on a store whose ids are integers with maximum \<open>M\<close> (0 if empty),
  the import converts the name at position \<open>j\<close> of the batch (0-based, failed fetches
  counted) with the id \<open>M + j + 1\<close> and appends the records in listing order; a name
  whose fetch fails creates no record and its id stays unused.  When every fetch of the
  batch succeeds the positions are \<open>0, ..., N - 1\<close>, so the ids are
  \<open>M + 1, ..., M + N\<close>.
\<close>

theorem import_ids_by_position:
  assumes "get_all_character_names a \<noteq> []"
    and "py_max_default (map id_c (get_all w)) (PInt 0) = Inr (PInt M)"
  shows "fst (ImportCommand_exec a command args w) = Inr () \<and>
    get_all (snd (ImportCommand_exec a command args w)) =
      get_all w @
      map (\<lambda>j. parse_to_character a (the (get_character_details a (import_batch a w ! j)))
                 (PInt (M + int j + 1)))
        (fetched_positions a (import_batch a w)) \<and>
    ((\<forall>details i. id_c (parse_to_character a details i) = i) \<longrightarrow>
       map id_c (get_all (snd (ImportCommand_exec a command args w))) =
         map id_c (get_all w) @
         map (\<lambda>j. PInt (M + int j + 1)) (fetched_positions a (import_batch a w))) \<and>
    (list_all (\<lambda>name. get_character_details a name \<noteq> None) (import_batch a w) \<longrightarrow>
       fetched_positions a (import_batch a w) = [0..<length (import_batch a w)])"
proof -
  from assms have mx: "py_max_default (map id_c (characters w)) (PInt 0) = Inr (PInt M)"
    by (simp add: get_all_def)
  note t = ImportCommand_exec_int [OF assms(1) mx, of command args]
  from t have ok: "fst (ImportCommand_exec a command args w) = Inr ()" by simp
  from t have cs: "get_all (snd (ImportCommand_exec a command args w)) =
      get_all w @
      map (\<lambda>j. parse_to_character a (the (get_character_details a (import_batch a w ! j)))
                 (PInt (M + int j + 1)))
        (fetched_positions a (import_batch a w))"
    by (simp add: get_all_def)
  have ids: "map id_c (get_all (snd (ImportCommand_exec a command args w))) =
         map id_c (get_all w) @
         map (\<lambda>j. PInt (M + int j + 1)) (fetched_positions a (import_batch a w))"
    if "\<forall>details i. id_c (parse_to_character a details i) = i"
    using that by (simp add: cs comp_def)
  from ok cs ids fetched_positions_all [of a "import_batch a w"] show ?thesis
    by blast
qed

theorem import_ids_by_position_witness:
  "get_all_character_names full_api \<noteq> [] \<and>
   py_max_default (map id_c (get_all stored_world)) (PInt 0) = Inr (PInt 7) \<and>
   list_all (\<lambda>name. get_character_details full_api name \<noteq> None)
     (import_batch full_api stored_world) \<and>
   fst (ImportCommand_exec full_api ''import'' [] stored_world) = Inr () \<and>
   get_all (snd (ImportCommand_exec full_api ''import'' [] stored_world)) =
     [amber (PInt 7), amber (PInt 3), amber (PInt 8), amber (PInt 9)] \<and>
   map id_c (get_all (snd (ImportCommand_exec full_api ''import'' [] stored_world))) =
     [PInt 7, PInt 3, PInt 8, PInt 9]"
proof -
  have h1: "get_all_character_names full_api \<noteq> []" by code_simp
  have h2: "py_max_default (map id_c (get_all stored_world)) (PInt 0) = Inr (PInt 7)"
    by code_simp
  have b: "import_batch full_api stored_world = [''albedo'', ''amber'']" by code_simp
  have h3: "list_all (\<lambda>name. get_character_details full_api name \<noteq> None)
      (import_batch full_api stored_world)"
    by code_simp
  have g: "get_all stored_world = [amber (PInt 7), amber (PInt 3)]" by code_simp
  have p: "parse_to_character full_api = (\<lambda>details i. amber i)" by (simp add: full_api_def)
  note t = import_ids_by_position [OF h1 h2, of "''import''" "[]"]
  from t h3 have f: "fetched_positions full_api (import_batch full_api stored_world) = [0, Suc 0]"
    by (simp add: b)
  have h4: "\<forall>details i. id_c (parse_to_character full_api details i) = i"
    by (simp add: p amber_def Character_init_def)
  from t have c: "get_all (snd (ImportCommand_exec full_api ''import'' [] stored_world)) =
     [amber (PInt 7), amber (PInt 3), amber (PInt 8), amber (PInt 9)]"
    unfolding f by (simp add: g p)
  from t h4 have "map id_c (get_all (snd (ImportCommand_exec full_api ''import'' [] stored_world))) =
     map id_c (get_all stored_world) @ map (\<lambda>j. PInt (7 + int j + 1)) [0, Suc 0]"
    unfolding f by blast
  then have i: "map id_c (get_all (snd (ImportCommand_exec full_api ''import'' [] stored_world))) =
     [PInt 7, PInt 3, PInt 8, PInt 9]"
    by (simp add: g amber_def Character_init_def)
  from h1 h2 h3 t c i show ?thesis by simp
qed

text \<open>
  Claim C5: when the listing call returns an empty sequence, the Import command renders
  a failure message and returns; the record sequence of the store (and the file) is what
  it was before.
\<close>

theorem import_empty_listing_aborts:
  assumes "get_all_character_names a = []"
  shows "ImportCommand_exec a command args w =
      (Inr (), w\<lparr>out := out w @ [ImportHeader, ImportLoading, ImportFailed]\<rparr>) \<and>
    get_all (snd (ImportCommand_exec a command args w)) = get_all w \<and>
    json_file (snd (ImportCommand_exec a command args w)) = json_file w"
  using assms by (simp add: ImportCommand_exec_empty get_all_def)

theorem import_empty_listing_aborts_witness:
  "get_all_character_names no_names_api = [] \<and>
   ImportCommand_exec no_names_api ''fetch'' [] stored_world =
      (Inr (), stored_world\<lparr>out := [ImportHeader, ImportLoading, ImportFailed]\<rparr>) \<and>
   get_all (snd (ImportCommand_exec no_names_api ''fetch'' [] stored_world)) =
      [amber (PInt 7), amber (PInt 3)]"
proof -
  have h: "get_all_character_names no_names_api = []" by (simp add: no_names_api_def)
  have o: "out stored_world = []" by (simp add: stored_world_def empty_world_def)
  have g: "get_all stored_world = [amber (PInt 7), amber (PInt 3)]"
    by (simp add: stored_world_def empty_world_def get_all_def)
  show ?thesis
    using import_empty_listing_aborts [OF h, of "''fetch''" "[]" stored_world] h o g
    by (simp add: get_all_def)
qed

lemma length_import_batch:
  "length (import_batch a w) \<le> length (get_all_character_names a)"
  by (simp add: import_batch_def length_py_slice_to)

text \<open>
  Claim C6: when the count cannot be read or parsed the count is 5; a parsed count is
  clamped to the number of available names; the batch never holds more names than
  exist, and the command adds at most that many records.
\<close>

theorem import_count_default_and_clamp:
  "((stdin w = [] \<or> py_int (hd (stdin w)) = None) \<longrightarrow> fst (import_count names w) = 5) \<and>
   (stdin w \<noteq> [] \<and> py_int (hd (stdin w)) = Some c \<longrightarrow>
      fst (import_count names w) = min c (int (length names))) \<and>
   length (py_slice_to names (fst (import_count names w))) \<le> length names \<and>
   length (import_batch a v) \<le> length (get_all_character_names a) \<and>
   length (get_all (snd (ImportCommand_exec a command args v))) \<le>
     length (get_all v) + length (get_all_character_names a)"
proof (intro conjI impI)
  assume "stdin w = [] \<or> py_int (hd (stdin w)) = None"
  then show "fst (import_count names w) = 5"
    by (auto simp: import_count_value split: list.splits)
next
  assume "stdin w \<noteq> [] \<and> py_int (hd (stdin w)) = Some c"
  then show "fst (import_count names w) = min c (int (length names))"
    by (auto simp: import_count_value split: list.splits)
next
  show "length (py_slice_to names (fst (import_count names w))) \<le> length names"
    by (rule length_py_slice_to)
next
  show "length (import_batch a v) \<le> length (get_all_character_names a)"
    by (rule length_import_batch)
next
  show "length (get_all (snd (ImportCommand_exec a command args v))) \<le>
     length (get_all v) + length (get_all_character_names a)"
    unfolding get_all_def by (rule ImportCommand_exec_bound)
qed

theorem import_count_default_and_clamp_witness:
  "py_int (hd (stdin many_world)) = None \<and>
   fst (import_count [''albedo'', ''amber''] many_world) = 5 \<and>
   stdin ten_world \<noteq> [] \<and> py_int (hd (stdin ten_world)) = Some 10 \<and>
   fst (import_count [''albedo'', ''amber''] ten_world) = 2 \<and>
   length (import_batch gap_api many_world) \<le> 2 \<and>
   length (get_all (snd (ImportCommand_exec gap_api ''import'' [] many_world))) \<le> 2"
proof -
  have h1: "py_int (hd (stdin many_world)) = None" by code_simp
  have h2: "stdin ten_world \<noteq> []" by code_simp
  have h3: "py_int (hd (stdin ten_world)) = Some 10" by code_simp
  have n: "get_all_character_names gap_api = [''albedo'', ''amber'']"
    by (simp add: gap_api_def)
  have g: "get_all many_world = []" by (simp add: get_all_def many_world_def empty_world_def)
  from import_count_default_and_clamp
    [of many_world "[''albedo'', ''amber'']" 0 gap_api many_world "''import''" "[]"] h1
  have a: "fst (import_count [''albedo'', ''amber''] many_world) = 5"
    and b: "length (import_batch gap_api many_world) \<le> 2"
    and c: "length (get_all (snd (ImportCommand_exec gap_api ''import'' [] many_world))) \<le> 2"
    by (simp_all add: n g)
  from import_count_default_and_clamp
    [of ten_world "[''albedo'', ''amber'']" 10 gap_api many_world "''import''" "[]"] h2 h3
  have d: "fst (import_count [''albedo'', ''amber''] ten_world) = 2"
    by simp
  from h1 h2 h3 a b c d show ?thesis by simp
qed

text \<open>
  Claim C7: a name whose fetch returns nothing is skipped: the loop goes on to the next
  name with the counter and the store as they were (only the progress line is
  rendered).  On a store with integer ids the command then ends normally, a progress
  line is rendered for every name of the batch, the final line carries the number of
  successful fetches, which is the number of records added and at most the batch size.
\<close>

theorem import_skips_failed_fetch:
  "(get_character_details a name = None \<longrightarrow>
      import_loop a count m i (name # rest) imported w =
        import_loop a count m (Suc i) rest imported
          (render (ImportProgress (i + 1) count name) w)) \<and>
   (get_all_character_names a \<noteq> [] \<and>
    py_max_default (map id_c (get_all v)) (PInt 0) = Inr (PInt M) \<longrightarrow>
      fst (ImportCommand_exec a command args v) = Inr () \<and>
      out (snd (ImportCommand_exec a command args v)) =
        out v @
        [ImportHeader, ImportLoading, ImportFound (length (get_all_character_names a)),
         ImportCount (chosen_count a v)] @
        progress_lines (chosen_count a v) (import_batch a v) @
        [ImportDone (length (fetched a (import_batch a v)))] \<and>
      length (get_all (snd (ImportCommand_exec a command args v))) =
        length (get_all v) + length (fetched a (import_batch a v)) \<and>
      length (fetched a (import_batch a v)) \<le> length (import_batch a v))"
  using ImportCommand_exec_int [of a v M command args]
  by (auto simp: get_all_def length_fetched_positions_filter chosen_count_def fetched_def
      progress_lines_def)

theorem import_skips_failed_fetch_witness:
  "get_character_details gap_api ''albedo'' = None \<and>
   import_loop gap_api 2 (PInt 0) 0 [''albedo'', ''amber''] 0 empty_world =
     import_loop gap_api 2 (PInt 0) 1 [''amber''] 0
       (render (ImportProgress 1 2 ''albedo'') empty_world) \<and>
   get_all_character_names gap_api \<noteq> [] \<and>
   py_max_default (map id_c (get_all gap_world)) (PInt 0) = Inr (PInt 0) \<and>
   fst (ImportCommand_exec gap_api ''import'' [] gap_world) = Inr () \<and>
   out (snd (ImportCommand_exec gap_api ''import'' [] gap_world)) =
     [ImportHeader, ImportLoading, ImportFound 2, ImportCount 2,
      ImportProgress 1 2 ''albedo'', ImportProgress 2 2 ''amber'', ImportDone 1] \<and>
   length (get_all (snd (ImportCommand_exec gap_api ''import'' [] gap_world))) = 1"
proof -
  have h0: "get_character_details gap_api ''albedo'' = None" by code_simp
  have h1: "get_all_character_names gap_api \<noteq> []" by code_simp
  have h2: "py_max_default (map id_c (get_all gap_world)) (PInt 0) = Inr (PInt 0)"
    by code_simp
  have e: "chosen_count gap_api gap_world = 2"
    "import_batch gap_api gap_world = [''albedo'', ''amber'']"
    "fetched gap_api [''albedo'', ''amber''] = [''amber'']"
    "progress_lines 2 [''albedo'', ''amber''] =
       [ImportProgress 1 2 ''albedo'', ImportProgress 2 2 ''amber'']"
    "length (get_all_character_names gap_api) = 2"
    "get_all gap_world = []" "out gap_world = []"
    by code_simp+
  note t = import_skips_failed_fetch
    [of gap_api "''albedo''" 2 "PInt 0" 0 "[''amber'']" 0 empty_world gap_world 0 "''import''" "[]"]
  from t h0 h1 h2 show ?thesis by (simp add: e)
qed

text \<open>
  Claim C10: when the count line parses to a negative \<open>c\<close> with \<open>|c|\<close> below the number
  of available names, the count stays \<open>c\<close>, the batch is the slice \<open>names[:c]\<close> (all but
  the last \<open>|c|\<close> names, \<open>available + c\<close> of them), and each progress line shows \<open>c\<close>
  as its denominator.
\<close>

theorem import_negative_count:
  assumes "stdin w = l # ls" and "py_int l = Some c" and "c < 0"
    and "- c < int (length (get_all_character_names a))"
  shows "chosen_count a w = c \<and>
    import_batch a w =
      take (length (get_all_character_names a) - nat (- c)) (get_all_character_names a) \<and>
    int (length (import_batch a w)) = int (length (get_all_character_names a)) + c \<and>
    (py_max_default (map id_c (get_all w)) (PInt 0) = Inr (PInt M) \<longrightarrow>
       out (snd (ImportCommand_exec a command args w)) =
         out w @
         [ImportHeader, ImportLoading, ImportFound (length (get_all_character_names a)),
          ImportCount c] @
         progress_lines c (import_batch a w) @
         [ImportDone (length (fetched a (import_batch a w)))])"
proof -
  let ?names = "get_all_character_names a"
  from assms have cnt: "fst (import_count ?names w) = c"
    by (simp add: import_count_value)
  have n: "nat (int (length ?names) + c) = length ?names - nat (- c)"
    using assms(3,4) by linarith
  from assms(3) have b: "import_batch a w = take (length ?names - nat (- c)) ?names"
    by (simp add: import_batch_def cnt py_slice_to_def n)
  have len: "int (length (import_batch a w)) = int (length ?names) + c"
    using assms(3,4) by (simp add: b)
  have ne: "?names \<noteq> []" using assms(3,4) by auto
  have o: "out (snd (ImportCommand_exec a command args w)) =
         out w @ [ImportHeader, ImportLoading, ImportFound (length ?names), ImportCount c] @
         progress_lines c (import_batch a w) @
         [ImportDone (length (fetched a (import_batch a w)))]"
    if "py_max_default (map id_c (get_all w)) (PInt 0) = Inr (PInt M)"
    using ImportCommand_exec_int [OF ne, of w M command args] that
    by (simp add: get_all_def cnt progress_lines_def fetched_def
        length_fetched_positions_filter)
  from cnt b len o show ?thesis by (simp add: chosen_count_def)
qed

theorem import_negative_count_witness:
  "stdin minus_world = [''-1''] \<and> py_int ''-1'' = Some (- 1) \<and>
   - (- 1) < int (length (get_all_character_names gap_api)) \<and>
   py_max_default (map id_c (get_all minus_world)) (PInt 0) = Inr (PInt 0) \<and>
   chosen_count gap_api minus_world = - 1 \<and>
   import_batch gap_api minus_world = [''albedo''] \<and>
   out (snd (ImportCommand_exec gap_api ''import'' [] minus_world)) =
     [ImportHeader, ImportLoading, ImportFound 2, ImportCount (- 1),
      ImportProgress 1 (- 1) ''albedo'', ImportDone 0]"
proof -
  have h1: "stdin minus_world = [''-1'']" by code_simp
  have h2: "py_int ''-1'' = Some (- 1)" by code_simp
  have h3: "(- 1 :: int) < 0" by simp
  have h4: "- (- 1) < int (length (get_all_character_names gap_api))" by code_simp
  have h5: "py_max_default (map id_c (get_all minus_world)) (PInt 0) = Inr (PInt 0)"
    by code_simp
  have e: "get_all_character_names gap_api = [''albedo'', ''amber'']"
    "fetched gap_api [''albedo''] = []"
    "progress_lines (- 1) [''albedo''] = [ImportProgress 1 (- 1) ''albedo'']"
    "out minus_world = []"
    by code_simp+
  note t = import_negative_count [OF h1 h2 h3 h4, of 0 "''import''" "[]"]
  from t have b: "import_batch gap_api minus_world = [''albedo'']"
    by (simp add: e)
  from t h1 h2 h4 h5 b show ?thesis by (simp add: e)
qed

section \<open>Show and the dispatcher\<close>





text \<open>
  Claim C9, as stated: for every registry and every input line the first command whose
  selectors contain the command word is invoked.  It fails for the words \<open>exit\<close> and
  \<open>quit\<close>, which are tested before the registry is scanned: a registered command that
  answers to \<open>quit\<close> is not invoked.
\<close>

theorem dispatch_exit_counterexample:
  "parse_args ''quit'' = (Some ''quit'', []) \<and>
   ''quit'' \<in> set (get_command_selectors quit_command) \<and>
   CLI_exec_command [quit_command] ''quit'' empty_world = (Inr False, empty_world) \<and>
   exec_command quit_command ''quit'' [] empty_world = (Inr (), render HelpText empty_world) \<and>
   out (render HelpText empty_world) \<noteq> out empty_world"
  by code_simp

lemma dispatch_append:
  "list_all (\<lambda>c. word \<notin> set (get_command_selectors c)) before \<Longrightarrow>
   dispatch (before @ rest) (Some word) args w = dispatch rest (Some word) args w"
  by (induction before) simp_all

text \<open>
  Claim C9, amended: for every registry and every input line whose command word is
  neither \<open>exit\<close> nor \<open>quit\<close>, the dispatcher invokes the first command, in
  registration order, whose selectors contain the word, and no other: the result is
  that command's, whatever is registered after it.
\<close>

theorem dispatch_first_match:
  assumes "parse_args input_string = (Some word, args)"
    and "word \<noteq> ''exit''" and "word \<noteq> ''quit''"
    and "list_all (\<lambda>c. word \<notin> set (get_command_selectors c)) before"
    and "word \<in> set (get_command_selectors cmd)"
  shows "CLI_exec_command (before @ cmd # after) input_string w =
    bind_res (exec_command cmd word args w) (\<lambda>_ w'. (Inr True, w'))"
  using assms by (simp add: CLI_exec_command_def dispatch_append)

theorem dispatch_first_match_witness:
  "parse_args ''ls -a'' = (Some ''ls'', [''-a'']) \<and>
   list_all (\<lambda>c. ''ls'' \<notin> set (get_command_selectors c)) [AddCommand] \<and>
   ''ls'' \<in> set (get_command_selectors overlap_command) \<and>
   ''ls'' \<in> set (get_command_selectors ListCommand) \<and>
   CLI_exec_command [AddCommand, overlap_command, ListCommand] ''ls -a'' empty_world =
     (Inr True, render HelpText empty_world)"
proof -
  have h1: "parse_args ''ls -a'' = (Some ''ls'', [''-a''])" by code_simp
  have h2: "''ls'' \<noteq> ''exit''" "''ls'' \<noteq> ''quit''" by simp_all
  have h3: "list_all (\<lambda>c. ''ls'' \<notin> set (get_command_selectors c)) [AddCommand]"
    by (simp add: AddCommand_def)
  have h4: "''ls'' \<in> set (get_command_selectors overlap_command)"
    by (simp add: overlap_command_def)
  have h5: "''ls'' \<in> set (get_command_selectors ListCommand)"
    by (simp add: ListCommand_def)
  have x: "exec_command overlap_command ''ls'' [''-a''] empty_world =
      (Inr (), render HelpText empty_world)"
    by (simp add: overlap_command_def HelpCommand_exec_def)
  from dispatch_first_match [OF h1 h2 h3 h4, of "[ListCommand]" empty_world] x
  have "CLI_exec_command [AddCommand, overlap_command, ListCommand] ''ls -a'' empty_world =
     (Inr True, render HelpText empty_world)"
    by simp
  with h1 h3 h4 h5 show ?thesis by simp
qed

end
